theory Spec2Isabelle
  imports Main
begin

section \<open>Query-state model\<close>

text \<open>
  The value classes the Table manifest and the resolution helpers work on. Their own
  modules are not among the source files, so each record lists the fields the code reads
  or writes: \<^verbatim>\<open>new Sort({ reference, direction })\<close>,
  \<^verbatim>\<open>new Split({ type, reference, limit, sort, bucket })\<close>,
  \<^verbatim>\<open>splitDimension.name / .kind / .sortStrategy\<close>, \<^verbatim>\<open>measure.title\<close>.
\<close>

datatype SortDirection = ascending | descending

record Sort =
  reference :: string
  direction :: SortDirection

datatype SplitType = string_split | number_split | time_split

datatype Bucket = DurationBucket string | NumberBucket int

text \<open>
  \<^verbatim>\<open>split.sort\<close> is an object that answers \<^verbatim>\<open>empty()\<close>; the empty sort is
  written \<open>None\<close>, a sort with a reference and a direction is \<open>Some\<close>.
  \<^verbatim>\<open>split.limit\<close> is a number or null.
\<close>

record Split =
  split_type :: SplitType
  split_reference :: string
  split_bucket :: "Bucket option"
  split_sort :: "Sort option"
  split_limit :: "int option"

text \<open>\<^verbatim>\<open>Splits\<close> wraps one immutable list of splits; the model is that list.\<close>

type_synonym Splits = "Split list"

record Dimension =
  name :: string
  title :: string
  kind :: string
  sortStrategy :: "string option"

record Measure =
  measure_name :: string
  measure_title :: string

record Series =
  series_reference :: string

type_synonym SeriesList = "Series list"

record Colors =
  dimension :: string

text \<open>
  The data cube. The body of \<^verbatim>\<open>getDefaultSortExpression()\<close> is not among the source
  files: its result is a field here, and it may be an empty sort.
\<close>

record DataCube =
  dimensions :: "Dimension list"
  measures :: "Measure list"
  defaultSortExpression :: "Sort option"

text \<open>
  The variables handed to predicates and actions. The Table chain calls
  \<^verbatim>\<open>Predicates.supportedSplitsCount()\<close> without an argument, so the supported
  maximum of splits travels with the context.
\<close>

record Context =
  splits :: Splits
  series :: SeriesList
  dataCube :: DataCube
  colors :: "Colors option"
  isSelectedVisualization :: bool
  supportedMax :: nat

text \<open>
  An adjustment is an object literal with some of the fields of the query state:
  \<^verbatim>\<open>{ splits: ... }\<close> or \<^verbatim>\<open>{ series: ... }\<close>. A field left out is \<open>None\<close>.
\<close>

record Adjustment =
  adj_series :: "SeriesList option"
  adj_splits :: "Splits option"

record Resolution =
  description :: string
  adjustment :: Adjustment

text \<open>
  The verdict. \<^verbatim>\<open>Resolve.ready(score)\<close> and \<^verbatim>\<open>Resolve.automatic(score, adjustment)\<close>
  are the calls of the Table manifest; an automatic verdict built by the action library may
  also carry a generated description, and a manual verdict carries its diagnostic message.
\<close>

datatype Resolve =
    Ready nat
  | Automatic nat Adjustment "string option"
  | Manual string

definition Resolve_ready :: "nat \<Rightarrow> Resolve" where
  "Resolve_ready score = Ready score"

definition Resolve_automatic :: "nat \<Rightarrow> Adjustment \<Rightarrow> Resolve" where
  "Resolve_automatic score adj = Automatic score adj None"

text \<open>Reading a property of \<^verbatim>\<open>undefined\<close> throws a TypeError.\<close>

datatype error = TypeError

section \<open>Resolutions.firstMeasure\<close>

text \<open>
  Modelled from the spec: \<^verbatim>\<open>Series.fromMeasure\<close> is not among the source files; a
  series is a selected measure, and a series definition is
  \<^verbatim>\<open>{ reference: string }\<close>, the name of its measure.
\<close>

definition fromMeasure :: "Measure \<Rightarrow> Series" where
  "fromMeasure m = \<lparr>series_reference = measure_name m\<rparr>"

text \<open>
  \<^verbatim>\<open>dataCube.measures.first()\<close> is \<^verbatim>\<open>undefined\<close> on an empty list, and
  \<^verbatim>\<open>firstMeasure.title\<close> then throws.
\<close>

definition firstMeasure :: "DataCube \<Rightarrow> error + Resolution list" where
  "firstMeasure dc =
     (case measures dc of
        [] \<Rightarrow> Inl TypeError
      | first # _ \<Rightarrow>
          Inr [\<lparr>description = ''Select measure: '' @ measure_title first,
                adjustment = \<lparr>adj_series = Some [fromMeasure first], adj_splits = None\<rparr>\<rparr>])"

section \<open>The Table manifest: fallback action\<close>

text \<open>
  Modelled from the spec: \<^verbatim>\<open>DataCube.getDimension\<close> is not among the source files. The
  data cube holds a dimension list, each dimension with a name; the lookup is by name and
  gives \<^verbatim>\<open>undefined\<close> (here \<open>None\<close>) for a name that is not there.
\<close>

definition getDimension :: "DataCube \<Rightarrow> string \<Rightarrow> Dimension option" where
  "getDimension dc n = find (\<lambda>d. name d = n) (dimensions dc)"

text \<open>
  The methods of \<^verbatim>\<open>DataCube\<close>, \<^verbatim>\<open>Sort\<close> and \<^verbatim>\<open>Split\<close> the fallback action calls:
  \<^verbatim>\<open>getDefaultSortExpression()\<close> reads the default sort, \<^verbatim>\<open>empty()\<close> tells the empty
  sort, \<^verbatim>\<open>changeSort\<close> and \<^verbatim>\<open>changeLimit\<close> give the split with that one field replaced.
\<close>

definition getDefaultSortExpression :: "DataCube \<Rightarrow> Sort option" where
  "getDefaultSortExpression dc = defaultSortExpression dc"

definition sort_empty :: "Sort option \<Rightarrow> bool" where
  "sort_empty s = (s = None)"

definition changeSort :: "Split \<Rightarrow> Sort option \<Rightarrow> Split" where
  "changeSort split s = split\<lparr>split_sort := s\<rparr>"

definition changeLimit :: "Split \<Rightarrow> int \<Rightarrow> Split" where
  "changeLimit split l = split\<lparr>split_limit := Some l\<rparr>"

text \<open>
  \<^verbatim>\<open>!split.limit\<close> holds for null and for 0; \<^verbatim>\<open>if (sortStrategy)\<close> fails for
  \<^verbatim>\<open>undefined\<close> and for the empty string.
\<close>

definition truthy_number :: "int option \<Rightarrow> bool" where
  "truthy_number l = (case l of None \<Rightarrow> False | Some n \<Rightarrow> n \<noteq> 0)"

text \<open>
  The first block of the callback of \<^verbatim>\<open>splits.map\<close>: a split with an empty sort gets
  one from the sort strategy of \<open>splitDimension\<close>, or else the default sort of the data
  cube, and only the latter sets \<open>autoChanged\<close>. The result is the split and the flag.
\<close>

definition assignSort :: "DataCube \<Rightarrow> Dimension \<Rightarrow> Split \<Rightarrow> bool \<Rightarrow> Split \<times> bool" where
  "assignSort dc splitDimension split autoChanged =
     (if sort_empty (split_sort split) then
        (case sortStrategy splitDimension of
           Some strategy \<Rightarrow>
             if strategy \<noteq> [] then
               (if strategy = ''self''
                then (changeSort split
                        (Some \<lparr>reference = name splitDimension, direction = descending\<rparr>),
                      autoChanged)
                else (changeSort split
                        (Some \<lparr>reference = strategy, direction = descending\<rparr>),
                      autoChanged))
             else (changeSort split (getDefaultSortExpression dc), True)
         | None \<Rightarrow> (changeSort split (getDefaultSortExpression dc), True))
      else (split, autoChanged))"

text \<open>The second block: \<^verbatim>\<open>split.changeLimit(i ? 5 : 50)\<close> under the condition
  the source marks with \<^verbatim>\<open>ToDo: review this\<close>.\<close>

definition assignLimit :: "Dimension \<Rightarrow> nat \<Rightarrow> Split \<Rightarrow> bool \<Rightarrow> Split \<times> bool" where
  "assignLimit splitDimension i split autoChanged =
     (if \<not> truthy_number (split_limit split) \<and> (autoChanged \<or> kind splitDimension \<noteq> ''time'')
      then (changeLimit split (if i \<noteq> 0 then 5 else 50), True)
      else (split, autoChanged))"

text \<open>
  The callback, for the split at index \<open>i\<close>. \<open>list\<close> is the list being mapped (the
  inner \<^verbatim>\<open>splits\<close> of the source), and \<open>splitDimension\<close> is looked up from \<^verbatim>\<open>splits.first().reference\<close> in every call;
  reading \<^verbatim>\<open>.sortStrategy\<close> of a dimension that is not in the data cube throws.
\<close>

definition mapCallback ::
  "DataCube \<Rightarrow> Splits \<Rightarrow> bool \<Rightarrow> Split \<Rightarrow> nat \<Rightarrow> error + Split \<times> bool" where
  "mapCallback dc list autoChanged split i =
     (case list of
        [] \<Rightarrow> Inl TypeError
      | first # _ \<Rightarrow>
          (case getDimension dc (split_reference first) of
             None \<Rightarrow> Inl TypeError
           | Some splitDimension \<Rightarrow>
               (case assignSort dc splitDimension split autoChanged of
                  (split1, autoChanged1) \<Rightarrow>
                     Inr (assignLimit splitDimension i split1 autoChanged1))))"

text \<open>
  \<^verbatim>\<open>splits.map\<close> runs the callback from index 0 upwards; \<open>autoChanged\<close> is a variable
  of the enclosing action, so each call sees what the calls before it wrote.
\<close>

fun mapSplits ::
  "DataCube \<Rightarrow> Splits \<Rightarrow> bool \<Rightarrow> nat \<Rightarrow> Split list \<Rightarrow> error + Split list \<times> bool" where
  "mapSplits dc list autoChanged i [] = Inr ([], autoChanged)"
| "mapSplits dc list autoChanged i (split # rest) =
     (case mapCallback dc list autoChanged split i of
        Inl e \<Rightarrow> Inl e
      | Inr (split', autoChanged') \<Rightarrow>
          (case mapSplits dc list autoChanged' (Suc i) rest of
             Inl e \<Rightarrow> Inl e
           | Inr (rest', autoChanged'') \<Rightarrow> Inr (split' # rest', autoChanged'')))"

definition clearColors :: "Colors option \<Rightarrow> bool \<Rightarrow> Colors option \<times> bool" where
  "clearColors cs autoChanged =
     (if cs \<noteq> None then (None, True) else (cs, autoChanged))"

text \<open>
  The local variables of the fallback action just before its \<^verbatim>\<open>return\<close>:
  \<open>newSplits\<close>, \<open>colors\<close> and \<open>autoChanged\<close>.
\<close>

definition otherwiseLocals :: "Context \<Rightarrow> error + Splits \<times> Colors option \<times> bool" where
  "otherwiseLocals ctx =
     (case mapSplits (dataCube ctx) (splits ctx) False 0 (splits ctx) of
        Inl e \<Rightarrow> Inl e
      | Inr (newSplits, autoChanged) \<Rightarrow>
          (case clearColors (colors ctx) autoChanged of
             (colors', autoChanged') \<Rightarrow> Inr (newSplits, colors', autoChanged')))"

definition tableOtherwise :: "Context \<Rightarrow> error + Resolve" where
  "tableOtherwise ctx =
     (case otherwiseLocals ctx of
        Inl e \<Rightarrow> Inl e
      | Inr (newSplits, colors', autoChanged) \<Rightarrow>
          Inr (if autoChanged
               then Resolve_automatic 6 \<lparr>adj_series = None, adj_splits = Some newSplits\<rparr>
               else Resolve_ready (if isSelectedVisualization ctx then 10 else 8)))"

text \<open>
  The first split names a dimension of the data cube (referential integrity of the input,
  as far as the fallback action depends on it).
\<close>

definition firstSplitResolves :: "Context \<Rightarrow> bool" where
  "firstSplitResolves ctx =
     (case splits ctx of
        [] \<Rightarrow> True
      | first # _ \<Rightarrow> getDimension (dataCube ctx) (split_reference first) \<noteq> None)"

text \<open>
  Modelled from the spec: applying an adjustment to the query state happens in the
  \<^verbatim>\<open>Essence\<close> class, which is not among the source files. The fields the adjustment
  carries replace those of the state.
\<close>

definition applyAdjustment :: "Adjustment \<Rightarrow> Context \<Rightarrow> Context" where
  "applyAdjustment adj ctx =
     ctx\<lparr>splits := (case adj_splits adj of Some s \<Rightarrow> s | None \<Rightarrow> splits ctx),
         series := (case adj_series adj of Some s \<Rightarrow> s | None \<Rightarrow> series ctx)\<rparr>"

text \<open>
  A split the fallback action leaves as it is when no earlier split has set
  \<open>autoChanged\<close>: it has a sort, and it has a limit or \<open>d\<close> is a time dimension.
\<close>

definition settled :: "Dimension \<Rightarrow> Split \<Rightarrow> bool" where
  "settled d s =
     (\<not> sort_empty (split_sort s) \<and> (truthy_number (split_limit s) \<or> kind d = ''time''))"

section \<open>Rule chains\<close>

text \<open>
  Modelled from the spec: the evaluator builder, the predicates and the actions
  (\<^verbatim>\<open>utils/rules/visualization-dependent-evaluator\<close>, \<^verbatim>\<open>predicates\<close>,
  \<^verbatim>\<open>actions\<close>) are not among the source files; this section follows sections 4.1 to
  4.3 of the specification. A rule chain is an ordered sequence of (predicate, action)
  pairs plus exactly one fallback action.
\<close>

type_synonym Predicate = "Context \<Rightarrow> bool"

type_synonym Action = "Context \<Rightarrow> error + Resolve"

record RuleChain =
  rules :: "(Predicate \<times> Action) list"
  fallback :: Action

text \<open>
  What an evaluation does, in order: the predicate of rule \<open>k\<close> is tested (with its
  answer), the action of rule \<open>k\<close> is invoked, or the fallback action is invoked.
\<close>

datatype Event = Tested nat bool | Invoked nat | InvokedFallback

text \<open>
  Modelled from the spec: iterate the pairs in registration order; evaluate each predicate
  against the context; on the first predicate that returns true, invoke its paired action
  and return its result immediately; if no predicate matches, invoke the fallback action
  and return its result. \<open>k\<close> is the position of the first pair of the list in the chain.
\<close>

fun evaluateFrom ::
  "nat \<Rightarrow> (Predicate \<times> Action) list \<Rightarrow> Action \<Rightarrow> Context \<Rightarrow> Event list \<times> (error + Resolve)" where
  "evaluateFrom k [] otherwiseAction ctx = ([InvokedFallback], otherwiseAction ctx)"
| "evaluateFrom k ((predicate, action) # rest) otherwiseAction ctx =
     (if predicate ctx then ([Tested k True, Invoked k], action ctx)
      else (case evaluateFrom (Suc k) rest otherwiseAction ctx of
              (events, verdict) \<Rightarrow> (Tested k False # events, verdict)))"

definition evaluateTraced :: "RuleChain \<Rightarrow> Context \<Rightarrow> Event list \<times> (error + Resolve)" where
  "evaluateTraced chain ctx = evaluateFrom 0 (rules chain) (fallback chain) ctx"

definition evaluate :: "RuleChain \<Rightarrow> Context \<Rightarrow> error + Resolve" where
  "evaluate chain ctx = snd (evaluateTraced chain ctx)"

text \<open>
  Modelled from the spec: the fluent builder \<^verbatim>\<open>.when(...).then(...).otherwise(...).build()\<close>.
  \<open>when\<close> holds a predicate until \<open>then\<close> registers it with its action after the pairs
  registered before; \<open>otherwise\<close> closes the chain with the fallback action.
\<close>

definition visualizationDependentEvaluatorBuilder :: "(Predicate \<times> Action) list" where
  "visualizationDependentEvaluatorBuilder = []"

definition when' :: "(Predicate \<times> Action) list \<Rightarrow> Predicate \<Rightarrow> (Predicate \<times> Action) list \<times> Predicate" where
  "when' builder predicate = (builder, predicate)"

definition then' :: "(Predicate \<times> Action) list \<times> Predicate \<Rightarrow> Action \<Rightarrow> (Predicate \<times> Action) list" where
  "then' pending action = fst pending @ [(snd pending, action)]"

definition otherwise :: "(Predicate \<times> Action) list \<Rightarrow> Action \<Rightarrow> RuleChain" where
  "otherwise builder action = \<lparr>rules = builder, fallback = action\<rparr>"

definition build :: "RuleChain \<Rightarrow> Context \<Rightarrow> error + Resolve" where
  "build chain = evaluate chain"

text \<open>Modelled from the spec: \<open>noSplits()\<close> is true iff the split sequence is empty.\<close>

definition noSplits :: Predicate where
  "noSplits ctx = (splits ctx = [])"

text \<open>
  Modelled from the spec: \<open>supportedSplitsCount\<close> is true iff the split count exceeds the
  maximum of splits the visualization supports.
\<close>

definition supportedSplitsCount :: Predicate where
  "supportedSplitsCount ctx = (supportedMax ctx < length (splits ctx))"

text \<open>
  Modelled from the spec: \<open>manualDimensionSelection(message)\<close> returns MANUAL with the
  given diagnostic string.
\<close>

definition manualDimensionSelection :: "string \<Rightarrow> Action" where
  "manualDimensionSelection message ctx = Inr (Manual message)"

text \<open>Decimal digits of a number, for the generated description.\<close>

definition digitChar :: "nat \<Rightarrow> char" where
  "digitChar d =
     (if d = 0 then CHR ''0'' else if d = 1 then CHR ''1'' else if d = 2 then CHR ''2''
      else if d = 3 then CHR ''3'' else if d = 4 then CHR ''4'' else if d = 5 then CHR ''5''
      else if d = 6 then CHR ''6'' else if d = 7 then CHR ''7'' else if d = 8 then CHR ''8''
      else CHR ''9'')"

fun showNat :: "nat \<Rightarrow> string" where
  "showNat n = (if n < 10 then [digitChar n] else showNat (n div 10) @ [digitChar (n mod 10)])"

text \<open>
  Modelled from the spec: \<open>removeExcessiveSplits(visualizationTitle)\<close> returns AUTOMATIC,
  truncating the split sequence to the supported maximum, with the generated description
  "<Title> supports only N splits; removing the rest". The specification gives this verdict
  no priority; it is the first argument here.
\<close>

definition removeExcessiveSplits :: "nat \<Rightarrow> string \<Rightarrow> Action" where
  "removeExcessiveSplits score visualizationTitle ctx =
     Inr (Automatic score
            \<lparr>adj_series = None, adj_splits = Some (take (supportedMax ctx) (splits ctx))\<rparr>
            (Some (visualizationTitle @ '' supports only '' @ showNat (supportedMax ctx)
                     @ '' splits; removing the rest'')))"

section \<open>The Table manifest: rule chain\<close>

text \<open>
  The chain of the Table manifest as the source registers it. \<open>score\<close> is the priority
  of the verdict of \<open>removeExcessiveSplits\<close>.
\<close>

definition tableRuleChain :: "nat \<Rightarrow> RuleChain" where
  "tableRuleChain score =
     otherwise
       (then'
          (when'
             (then'
                (when' visualizationDependentEvaluatorBuilder noSplits)
                (manualDimensionSelection ''The Table requires at least one split''))
             supportedSplitsCount)
          (removeExcessiveSplits score ''Table''))
       tableOtherwise"

definition rulesEvaluator :: "nat \<Rightarrow> Context \<Rightarrow> error + Resolve" where
  "rulesEvaluator score = build (tableRuleChain score)"

section \<open>Example inputs\<close>

definition countDescending :: Sort where
  "countDescending = \<lparr>reference = ''count'', direction = descending\<rparr>"

definition exampleCube :: "Dimension list \<Rightarrow> DataCube" where
  "exampleCube ds =
     \<lparr>dimensions = ds,
      measures = [\<lparr>measure_name = ''count'', measure_title = ''Count''\<rparr>],
      defaultSortExpression = Some countDescending\<rparr>"

definition stringDimension :: "string \<Rightarrow> string option \<Rightarrow> Dimension" where
  "stringDimension n strategy = \<lparr>name = n, title = n, kind = ''string'', sortStrategy = strategy\<rparr>"

definition timeDimension :: Dimension where
  "timeDimension = \<lparr>name = ''time'', title = ''Time'', kind = ''time'', sortStrategy = None\<rparr>"

definition stringSplit :: "string \<Rightarrow> Sort option \<Rightarrow> int option \<Rightarrow> Split" where
  "stringSplit r s l =
     \<lparr>split_type = string_split, split_reference = r, split_bucket = None,
      split_sort = s, split_limit = l\<rparr>"

definition timeSplit :: "Sort option \<Rightarrow> int option \<Rightarrow> Split" where
  "timeSplit s l =
     \<lparr>split_type = time_split, split_reference = ''time'',
      split_bucket = Some (DurationBucket ''PT1H''), split_sort = s, split_limit = l\<rparr>"

definition exampleContext :: "Dimension list \<Rightarrow> Splits \<Rightarrow> Colors option \<Rightarrow> Context" where
  "exampleContext ds ss cs =
     \<lparr>splits = ss, series = [\<lparr>series_reference = ''count''\<rparr>], dataCube = exampleCube ds,
      colors = cs, isSelectedVisualization = True, supportedMax = 2\<rparr>"

section \<open>Properties of the fallback action\<close>

lemma mapCallback_resolved:
  assumes "list = first # others" and "getDimension dc (split_reference first) = Some d"
  shows "mapCallback dc list ac s i =
           Inr (assignLimit d i (fst (assignSort dc d s ac)) (snd (assignSort dc d s ac)))"
  using assms by (simp add: mapCallback_def split: prod.splits)

lemma mapCallback_Inr_resolves:
  assumes "mapCallback dc list ac s i = Inr r"
  shows "\<exists>first others d. list = first # others \<and> getDimension dc (split_reference first) = Some d"
  using assms by (auto simp add: mapCallback_def split: list.splits option.splits)

lemma mapSplits_total:
  assumes "list = first # others" and "getDimension dc (split_reference first) = Some d"
  shows "\<exists>ns a. mapSplits dc list ac i xs = Inr (ns, a)"
proof (induction xs arbitrary: ac i)
  case Nil
  show ?case by simp
next
  case (Cons x xs)
  obtain s' ac' where step: "mapCallback dc list ac x i = Inr (s', ac')"
    using mapCallback_resolved [OF assms] by (metis surj_pair)
  from Cons.IH [of ac' "Suc i"] obtain ns a where "mapSplits dc list ac' (Suc i) xs = Inr (ns, a)"
    by blast
  with step show ?case by simp
qed

lemma assignSort_present:
  "\<not> sort_empty (split_sort s) \<Longrightarrow> assignSort dc d s ac = (s, ac)"
  by (simp add: assignSort_def)

lemma assignLimit_same_limit:
  assumes "assignLimit d i s False = (s', ac')" and "split_limit s' = split_limit s"
  shows "s' = s \<and> ac' = False"
  using assms
  by (auto simp add: assignLimit_def changeLimit_def truthy_number_def split: if_splits option.splits)

lemma mapSplits_unchanged:
  assumes "\<forall>s\<in>set xs. \<not> sort_empty (split_sort s)"
    and "mapSplits dc list False i xs = Inr (ns, a)"
    and "map split_limit ns = map split_limit xs"
  shows "ns = xs \<and> a = False"
  using assms
proof (induction xs arbitrary: i ns a)
  case Nil
  then show ?case by simp
next
  case (Cons x xs)
  from Cons.prems(2) obtain s' ac' rest' where
    step: "mapCallback dc list False x i = Inr (s', ac')" and
    rest: "mapSplits dc list ac' (Suc i) xs = Inr (rest', a)" and
    ns: "ns = s' # rest'"
    by (auto split: sum.splits prod.splits)
  from mapCallback_Inr_resolves [OF step] obtain first others d where
    res: "list = first # others" "getDimension dc (split_reference first) = Some d"
    by blast
  from Cons.prems(1) have present: "\<not> sort_empty (split_sort x)" by simp
  from step mapCallback_resolved [OF res, of False x i] present
  have "assignLimit d i x False = (s', ac')"
    by (simp add: assignSort_present)
  moreover from Cons.prems(3) ns have "split_limit s' = split_limit x" by simp
  ultimately have same: "s' = x \<and> ac' = False"
    by (rule assignLimit_same_limit)
  from Cons.prems(1) have "\<forall>s\<in>set xs. \<not> sort_empty (split_sort s)" by simp
  moreover from same rest have "mapSplits dc list False (Suc i) xs = Inr (rest', a)" by simp
  moreover from Cons.prems(3) ns have "map split_limit rest' = map split_limit xs" by simp
  ultimately have "rest' = xs \<and> a = False" by (rule Cons.IH)
  with same ns show ?case by simp
qed

text \<open>
  Claim C6. When the fallback action has nothing to correct (every split has a sort, the
  pass over the splits assigns no limit, and no colors are set), the verdict is READY,
  with priority 10 if the Table is the selected visualization and 8 otherwise.
  "Assigns no limit" is read off the run itself: the splits it produces have the limits of
  the input.
\<close>

theorem tableOtherwise_ready_when_nothing_to_correct:
  assumes "\<forall>s\<in>set (splits ctx). \<not> sort_empty (split_sort s)"
    and "mapSplits (dataCube ctx) (splits ctx) False 0 (splits ctx) = Inr (newSplits, autoChanged)"
    and "map split_limit newSplits = map split_limit (splits ctx)"
    and "colors ctx = None"
  shows "tableOtherwise ctx = Inr (Ready (if isSelectedVisualization ctx then 10 else 8))"
proof -
  from mapSplits_unchanged [OF assms(1) assms(2) assms(3)]
  have "newSplits = splits ctx \<and> autoChanged = False" .
  with assms(2) assms(4) show ?thesis
    by (simp add: tableOtherwise_def otherwiseLocals_def clearColors_def Resolve_ready_def)
qed

text \<open>
  Claim C4. When colors are set and the first split names a dimension of the data cube,
  the fallback action returns AUTOMATIC with priority 6. Its \<open>colors\<close> variable is
  null at the return, and the adjustment carries the new splits and no other field.
\<close>

theorem tableOtherwise_colors_automatic:
  assumes "colors ctx \<noteq> None" and "firstSplitResolves ctx"
  shows "\<exists>newSplits. otherwiseLocals ctx = Inr (newSplits, None, True) \<and>
           tableOtherwise ctx =
             Inr (Automatic 6 \<lparr>adj_series = None, adj_splits = Some newSplits\<rparr> None)"
proof -
  have "\<exists>ns a. mapSplits (dataCube ctx) (splits ctx) False 0 (splits ctx) = Inr (ns, a)"
  proof (cases "splits ctx")
    case Nil
    then have "mapSplits (dataCube ctx) (splits ctx) False 0 (splits ctx) = Inr ([], False)"
      by simp
    then show ?thesis by blast
  next
    case (Cons first others)
    with assms(2) obtain d where
      "getDimension (dataCube ctx) (split_reference first) = Some d"
      by (auto simp add: firstSplitResolves_def)
    from mapSplits_total [OF Cons this] show ?thesis .
  qed
  then obtain ns a where "mapSplits (dataCube ctx) (splits ctx) False 0 (splits ctx) = Inr (ns, a)"
    by blast
  with assms(1) show ?thesis
    by (auto simp add: tableOtherwise_def otherwiseLocals_def clearColors_def Resolve_automatic_def)
qed

lemma assignSort_result:
  assumes "\<not> sort_empty (getDefaultSortExpression dc)"
  shows "\<not> sort_empty (split_sort (fst (assignSort dc d s ac))) \<and>
         split_reference (fst (assignSort dc d s ac)) = split_reference s \<and>
         split_limit (fst (assignSort dc d s ac)) = split_limit s"
  using assms
  by (simp add: assignSort_def changeSort_def sort_empty_def split: option.splits)

lemma assignLimit_result:
  assumes "assignLimit d i s ac = (s', ac')"
  shows "split_sort s' = split_sort s \<and> split_reference s' = split_reference s \<and>
         (truthy_number (split_limit s') \<or> kind d = ''time'')"
  using assms
  by (auto simp add: assignLimit_def changeLimit_def truthy_number_def split: if_splits)

lemma callback_settled:
  assumes "\<not> sort_empty (getDefaultSortExpression dc)"
    and "assignLimit d i (fst (assignSort dc d s ac)) (snd (assignSort dc d s ac)) = (s', ac')"
  shows "settled d s' \<and> split_reference s' = split_reference s"
  using assignSort_result [OF assms(1), of d s ac] assignLimit_result [OF assms(2)]
  by (simp add: settled_def)

lemma mapSplits_settled:
  assumes "list = first # others" and "getDimension dc (split_reference first) = Some d"
    and "\<not> sort_empty (getDefaultSortExpression dc)"
    and "mapSplits dc list ac i xs = Inr (ns, a)"
  shows "(\<forall>s\<in>set ns. settled d s) \<and> map split_reference ns = map split_reference xs"
  using assms(4)
proof (induction xs arbitrary: ac i ns a)
  case Nil
  then show ?case by simp
next
  case (Cons x xs)
  from Cons.prems obtain s' ac' rest' where
    step: "mapCallback dc list ac x i = Inr (s', ac')" and
    rest: "mapSplits dc list ac' (Suc i) xs = Inr (rest', a)" and
    ns: "ns = s' # rest'"
    by (auto split: sum.splits prod.splits)
  from step mapCallback_resolved [OF assms(1) assms(2), of ac x i]
  have "assignLimit d i (fst (assignSort dc d x ac)) (snd (assignSort dc d x ac)) = (s', ac')"
    by simp
  from callback_settled [OF assms(3) this]
  have head: "settled d s' \<and> split_reference s' = split_reference x" .
  from Cons.IH [OF rest] head ns show ?case by simp
qed

lemma callback_fixed:
  assumes "settled d s"
  shows "assignLimit d i (fst (assignSort dc d s False)) (snd (assignSort dc d s False)) = (s, False)"
  using assms by (auto simp add: settled_def assignSort_def assignLimit_def)

lemma mapSplits_fixed:
  assumes "list = first # others" and "getDimension dc (split_reference first) = Some d"
    and "\<forall>s\<in>set xs. settled d s"
  shows "mapSplits dc list False i xs = Inr (xs, False)"
  using assms(3)
proof (induction xs arbitrary: i)
  case Nil
  show ?case by simp
next
  case (Cons x xs)
  from Cons.prems have "settled d x" by simp
  then have "mapCallback dc list False x i = Inr (x, False)"
    using mapCallback_resolved [OF assms(1) assms(2), of False x i] by (simp add: callback_fixed)
  moreover from Cons.prems have "mapSplits dc list False (Suc i) xs = Inr (xs, False)"
    by (simp add: Cons.IH)
  ultimately show ?case by simp
qed

text \<open>
  Claim C9. If the fallback action returns AUTOMATIC for a context without colors, and
  the default sort of the data cube is not the empty sort, then the fallback action
  returns READY for the context with the adjustment applied: one correction is enough.
\<close>

theorem tableOtherwise_adjusted_ready:
  assumes "tableOtherwise ctx = Inr (Automatic score adj descr)"
    and "colors ctx = None"
    and "\<not> sort_empty (getDefaultSortExpression (dataCube ctx))"
  shows "tableOtherwise (applyAdjustment adj ctx)
           = Inr (Ready (if isSelectedVisualization ctx then 10 else 8))"
proof -
  from assms(1) assms(2) obtain ns where
    run: "mapSplits (dataCube ctx) (splits ctx) False 0 (splits ctx) = Inr (ns, True)" and
    adj: "adj = \<lparr>adj_series = None, adj_splits = Some ns\<rparr>"
    by (auto simp add: tableOtherwise_def otherwiseLocals_def clearColors_def
          Resolve_automatic_def Resolve_ready_def split: sum.splits prod.splits if_splits)
  from adj assms(2) have ctx': "splits (applyAdjustment adj ctx) = ns"
    "dataCube (applyAdjustment adj ctx) = dataCube ctx"
    "colors (applyAdjustment adj ctx) = None"
    "isSelectedVisualization (applyAdjustment adj ctx) = isSelectedVisualization ctx"
    by (simp_all add: applyAdjustment_def)
  from run obtain x xs where ss: "splits ctx = x # xs"
    by (cases "splits ctx") auto
  with run obtain r where "mapCallback (dataCube ctx) (splits ctx) False x 0 = Inr r"
    by (auto split: sum.splits)
  from mapCallback_Inr_resolves [OF this] ss obtain d where
    d: "getDimension (dataCube ctx) (split_reference x) = Some d"
    by auto
  from mapSplits_settled [OF ss d assms(3) run]
  have settled: "\<forall>s\<in>set ns. settled d s" and
    refs: "map split_reference ns = map split_reference (splits ctx)"
    by simp_all
  from refs ss obtain y ys where ns: "ns = y # ys" and "split_reference y = split_reference x"
    by (cases ns) auto
  with d have d': "getDimension (dataCube ctx) (split_reference y) = Some d" by simp
  from mapSplits_fixed [OF ns d' settled]
  have "mapSplits (dataCube ctx) ns False 0 ns = Inr (ns, False)" .
  with ctx' show ?thesis
    by (simp add: tableOtherwise_def otherwiseLocals_def clearColors_def Resolve_ready_def)
qed

section \<open>Properties of rule chains and of the Table chain\<close>

lemma evaluateFrom_first_match:
  assumes "n < length rs" and "fst (rs ! n) ctx" and "\<forall>j<n. \<not> fst (rs ! j) ctx"
  shows "evaluateFrom k rs fb ctx =
           (map (\<lambda>j. Tested j False) [k..<k + n] @ [Tested (k + n) True, Invoked (k + n)],
            snd (rs ! n) ctx)"
  using assms
proof (induction rs arbitrary: k n)
  case Nil
  then show ?case by simp
next
  case (Cons r rs)
  obtain p a where r: "r = (p, a)" by (cases r)
  show ?case
  proof (cases n)
    case 0
    with Cons.prems r show ?thesis by simp
  next
    case (Suc m)
    with Cons.prems have "\<not> fst ((r # rs) ! 0) ctx" by blast
    with r have no: "\<not> p ctx" by simp
    from Cons.prems Suc have m: "m < length rs" "fst (rs ! m) ctx" by simp_all
    have "\<forall>j<m. \<not> fst (rs ! j) ctx"
    proof (intro allI impI)
      fix j assume "j < m"
      then have "Suc j < n" using Suc by simp
      with Cons.prems(3) have "\<not> fst ((r # rs) ! Suc j) ctx" by blast
      then show "\<not> fst (rs ! j) ctx" by simp
    qed
    from Cons.IH [OF m this, of "Suc k"]
    have "evaluateFrom (Suc k) rs fb ctx =
            (map (\<lambda>j. Tested j False) [Suc k..<Suc k + m] @
               [Tested (Suc k + m) True, Invoked (Suc k + m)], snd (rs ! m) ctx)" .
    with r no Suc show ?thesis by (simp add: upt_rec [of k])
  qed
qed

lemma evaluateFrom_no_match:
  assumes "\<forall>r\<in>set rs. \<not> fst r ctx"
  shows "evaluateFrom k rs fb ctx =
           (map (\<lambda>j. Tested j False) [k..<k + length rs] @ [InvokedFallback], fb ctx)"
  using assms
proof (induction rs arbitrary: k)
  case Nil
  show ?case by simp
next
  case (Cons r rs)
  obtain p a where r: "r = (p, a)" by (cases r)
  with Cons.prems have no: "\<not> p ctx" by simp
  from Cons.prems have "\<forall>r\<in>set rs. \<not> fst r ctx" by simp
  from Cons.IH [OF this, of "Suc k"]
  have "evaluateFrom (Suc k) rs fb ctx =
          (map (\<lambda>j. Tested j False) [Suc k..<Suc k + length rs] @ [InvokedFallback], fb ctx)" .
  moreover have "[k..<k + length (r # rs)] = k # [Suc k..<Suc k + length rs]"
    by (simp add: upt_conv_Cons del: upt_Suc)
  ultimately show ?case using r no by (simp del: upt_Suc)
qed

lemma evaluateFrom_fallback_iff:
  "InvokedFallback \<in> set (fst (evaluateFrom k rs fb ctx)) \<longleftrightarrow> (\<forall>r\<in>set rs. \<not> fst r ctx)"
proof (induction rs arbitrary: k)
  case Nil
  show ?case by simp
next
  case (Cons r rs)
  obtain p a where r: "r = (p, a)" by (cases r)
  show ?case
  proof (cases "p ctx")
    case True
    with r show ?thesis by simp
  next
    case False
    obtain events verdict where "evaluateFrom (Suc k) rs fb ctx = (events, verdict)"
      by (cases "evaluateFrom (Suc k) rs fb ctx")
    with False r Cons.IH [of "Suc k"] show ?thesis by simp
  qed
qed

text \<open>
  Claim C2. Evaluation of a rule chain is a first-match-wins decision list. If rule \<open>n\<close>
  is the first whose predicate holds, the predicates 0 to \<open>n\<close> are tested in this
  order, nothing after rule \<open>n\<close> is tested or invoked, and the verdict is that of the
  action of rule \<open>n\<close>. If no predicate holds, all are tested in order and the verdict is
  that of the fallback action. The fallback action is invoked if and only if every
  predicate is false.
\<close>

theorem evaluateTraced_first_match_wins:
  "(\<forall>n. n < length (rules chain) \<and> fst (rules chain ! n) ctx \<and>
         (\<forall>j<n. \<not> fst (rules chain ! j) ctx) \<longrightarrow>
       evaluateTraced chain ctx =
         (map (\<lambda>j. Tested j False) [0..<n] @ [Tested n True, Invoked n],
          snd (rules chain ! n) ctx)) \<and>
   ((\<forall>r\<in>set (rules chain). \<not> fst r ctx) \<longrightarrow>
       evaluateTraced chain ctx =
         (map (\<lambda>j. Tested j False) [0..<length (rules chain)] @ [InvokedFallback],
          fallback chain ctx)) \<and>
   (InvokedFallback \<in> set (fst (evaluateTraced chain ctx)) \<longleftrightarrow>
      (\<forall>r\<in>set (rules chain). \<not> fst r ctx)) \<and>
   evaluate chain ctx = snd (evaluateTraced chain ctx)"
proof (intro conjI allI impI)
  fix n
  assume "n < length (rules chain) \<and> fst (rules chain ! n) ctx \<and>
          (\<forall>j<n. \<not> fst (rules chain ! j) ctx)"
  then show "evaluateTraced chain ctx =
      (map (\<lambda>j. Tested j False) [0..<n] @ [Tested n True, Invoked n], snd (rules chain ! n) ctx)"
    using evaluateFrom_first_match [of n "rules chain" ctx 0 "fallback chain"]
    by (simp add: evaluateTraced_def)
next
  assume "\<forall>r\<in>set (rules chain). \<not> fst r ctx"
  then show "evaluateTraced chain ctx =
      (map (\<lambda>j. Tested j False) [0..<length (rules chain)] @ [InvokedFallback], fallback chain ctx)"
    using evaluateFrom_no_match [of "rules chain" ctx 0 "fallback chain"]
    by (simp add: evaluateTraced_def)
next
  show "InvokedFallback \<in> set (fst (evaluateTraced chain ctx)) \<longleftrightarrow>
      (\<forall>r\<in>set (rules chain). \<not> fst r ctx)"
    by (simp add: evaluateTraced_def evaluateFrom_fallback_iff)
next
  show "evaluate chain ctx = snd (evaluateTraced chain ctx)"
    by (simp add: evaluate_def)
qed

lemma tableRuleChain_rules:
  "rules (tableRuleChain score) =
     [(noSplits, manualDimensionSelection ''The Table requires at least one split''),
      (supportedSplitsCount, removeExcessiveSplits score ''Table'')]"
  "fallback (tableRuleChain score) = tableOtherwise"
  by (simp_all add: tableRuleChain_def otherwise_def then'_def when'_def
        visualizationDependentEvaluatorBuilder_def)

text \<open>
  Claim C8. For an empty split sequence the evaluator of the Table manifest returns MANUAL
  with the message that the Table requires at least one split; only the first predicate
  is tested and only its action is invoked.
\<close>

theorem rulesEvaluator_no_splits_manual:
  assumes "splits ctx = []"
  shows "rulesEvaluator score ctx = Inr (Manual ''The Table requires at least one split'') \<and>
         fst (evaluateTraced (tableRuleChain score) ctx) = [Tested 0 True, Invoked 0]"
  using assms
  by (simp add: rulesEvaluator_def build_def evaluate_def evaluateTraced_def
        tableRuleChain_rules noSplits_def manualDimensionSelection_def)

text \<open>
  Claim C7. When the number of splits exceeds the supported maximum, the evaluator of the
  Table manifest returns AUTOMATIC, and the splits of its adjustment are exactly the first
  \<open>supportedMax\<close> splits of the input, each at its old position.
\<close>

theorem rulesEvaluator_truncates_excessive_splits:
  assumes "supportedMax ctx < length (splits ctx)"
  shows "\<exists>kept descr.
           rulesEvaluator score ctx =
             Inr (Automatic score \<lparr>adj_series = None, adj_splits = Some kept\<rparr> descr) \<and>
           length kept = supportedMax ctx \<and>
           (\<forall>i<supportedMax ctx. kept ! i = splits ctx ! i)"
proof -
  from assms have "splits ctx \<noteq> []" by auto
  then have "rulesEvaluator score ctx =
      Inr (Automatic score
             \<lparr>adj_series = None, adj_splits = Some (take (supportedMax ctx) (splits ctx))\<rparr>
             (Some (''Table'' @ '' supports only '' @ showNat (supportedMax ctx)
                      @ '' splits; removing the rest'')))"
    using assms
    by (simp add: rulesEvaluator_def build_def evaluate_def evaluateTraced_def
          tableRuleChain_rules noSplits_def supportedSplitsCount_def removeExcessiveSplits_def)
  moreover from assms have "length (take (supportedMax ctx) (splits ctx)) = supportedMax ctx"
    by simp
  moreover have "\<forall>i<supportedMax ctx. take (supportedMax ctx) (splits ctx) ! i = splits ctx ! i"
    by simp
  ultimately show ?thesis by blast
qed

section \<open>Evaluation on the example inputs\<close>

lemmas fallback_defs =
  tableOtherwise_def otherwiseLocals_def clearColors_def mapCallback_def assignSort_def
  assignLimit_def changeSort_def changeLimit_def sort_empty_def truthy_number_def
  getDimension_def getDefaultSortExpression_def Resolve_automatic_def Resolve_ready_def

lemmas example_defs =
  exampleContext_def exampleCube_def stringDimension_def timeDimension_def stringSplit_def
  timeSplit_def countDescending_def

section \<open>The fallback action on splits after the first\<close>

text \<open>
  Claim C1. Two splits without a sort, on the dimensions country and city, both with sort
  strategy "self". The split on city is sorted by country, the dimension of the first
  split, not by its own dimension: the callback looks the dimension up from
  \<^verbatim>\<open>splits.first().reference\<close>.
\<close>

theorem tableOtherwise_self_sort_uses_first_dimension:
  "tableOtherwise (exampleContext
      [stringDimension ''country'' (Some ''self''), stringDimension ''city'' (Some ''self'')]
      [stringSplit ''country'' None None, stringSplit ''city'' None None] None)
   = Inr (Automatic 6
       \<lparr>adj_series = None,
        adj_splits = Some
          [stringSplit ''country'' (Some \<lparr>reference = ''country'', direction = descending\<rparr>) (Some 50),
           stringSplit ''city'' (Some \<lparr>reference = ''country'', direction = descending\<rparr>) (Some 5)]\<rparr>
       None)"
  by (simp add: fallback_defs example_defs)

text \<open>
  Claim C3. The limit rule reads the kind of the dimension of the first split. A time split
  with a sort and no limit, after a split on a string dimension that needs no correction,
  gets the limit 5; and a string split with a sort and no limit, after a time split, gets
  no limit at all.
\<close>

theorem tableOtherwise_limits_time_split_after_string_split:
  "tableOtherwise (exampleContext
      [stringDimension ''country'' None, timeDimension]
      [stringSplit ''country'' (Some countDescending) (Some 10),
       timeSplit (Some \<lparr>reference = ''time'', direction = ascending\<rparr>) None] None)
   = Inr (Automatic 6
       \<lparr>adj_series = None,
        adj_splits = Some
          [stringSplit ''country'' (Some countDescending) (Some 10),
           timeSplit (Some \<lparr>reference = ''time'', direction = ascending\<rparr>) (Some 5)]\<rparr>
       None)
   \<and> tableOtherwise (exampleContext
      [timeDimension, stringDimension ''country'' None]
      [timeSplit (Some \<lparr>reference = ''time'', direction = ascending\<rparr>) None,
       stringSplit ''country'' (Some countDescending) None] None)
   = Inr (Ready 10)"
  by (simp add: fallback_defs example_defs)

text \<open>
  Claim C5. A split without a sort on city, a dimension without sort strategy, after a
  split on country, whose strategy is "self": the split on city is sorted by country and
  not by the default sort of the data cube, \<open>autoChanged\<close> stays false and the verdict
  is READY.
\<close>

theorem tableOtherwise_missing_strategy_uses_first_dimension:
  "otherwiseLocals (exampleContext
      [stringDimension ''country'' (Some ''self''), stringDimension ''city'' None]
      [stringSplit ''country'' (Some countDescending) (Some 10),
       stringSplit ''city'' None (Some 10)] None)
   = Inr ([stringSplit ''country'' (Some countDescending) (Some 10),
           stringSplit ''city'' (Some \<lparr>reference = ''country'', direction = descending\<rparr>) (Some 10)],
          None, False)
   \<and> tableOtherwise (exampleContext
      [stringDimension ''country'' (Some ''self''), stringDimension ''city'' None]
      [stringSplit ''country'' (Some countDescending) (Some 10),
       stringSplit ''city'' None (Some 10)] None)
   = Inr (Ready 10)"
  by (simp add: fallback_defs example_defs)

section \<open>The theorems at concrete inputs\<close>

theorem tableOtherwise_colors_automatic_witness:
  "colors (exampleContext [stringDimension ''country'' None]
            [stringSplit ''country'' (Some countDescending) (Some 10)]
            (Some \<lparr>dimension = ''country''\<rparr>)) \<noteq> None
   \<and> firstSplitResolves (exampleContext [stringDimension ''country'' None]
            [stringSplit ''country'' (Some countDescending) (Some 10)]
            (Some \<lparr>dimension = ''country''\<rparr>))
   \<and> otherwiseLocals (exampleContext [stringDimension ''country'' None]
            [stringSplit ''country'' (Some countDescending) (Some 10)]
            (Some \<lparr>dimension = ''country''\<rparr>))
       = Inr ([stringSplit ''country'' (Some countDescending) (Some 10)], None, True)
   \<and> tableOtherwise (exampleContext [stringDimension ''country'' None]
            [stringSplit ''country'' (Some countDescending) (Some 10)]
            (Some \<lparr>dimension = ''country''\<rparr>))
       = Inr (Automatic 6
           \<lparr>adj_series = None,
            adj_splits = Some [stringSplit ''country'' (Some countDescending) (Some 10)]\<rparr> None)"
  using tableOtherwise_colors_automatic
    [of "exampleContext [stringDimension ''country'' None]
            [stringSplit ''country'' (Some countDescending) (Some 10)]
            (Some \<lparr>dimension = ''country''\<rparr>)"]
  by (simp add: fallback_defs example_defs firstSplitResolves_def)

theorem tableOtherwise_ready_when_nothing_to_correct_witness:
  "\<not> sort_empty (split_sort
        (timeSplit (Some \<lparr>reference = ''time'', direction = ascending\<rparr>) None))
   \<and> splits (exampleContext [timeDimension]
        [timeSplit (Some \<lparr>reference = ''time'', direction = ascending\<rparr>) None] None)
       = [timeSplit (Some \<lparr>reference = ''time'', direction = ascending\<rparr>) None]
   \<and> mapSplits (exampleCube [timeDimension])
        [timeSplit (Some \<lparr>reference = ''time'', direction = ascending\<rparr>) None] False 0
        [timeSplit (Some \<lparr>reference = ''time'', direction = ascending\<rparr>) None]
       = Inr ([timeSplit (Some \<lparr>reference = ''time'', direction = ascending\<rparr>) None], False)
   \<and> colors (exampleContext [timeDimension]
        [timeSplit (Some \<lparr>reference = ''time'', direction = ascending\<rparr>) None] None) = None
   \<and> tableOtherwise (exampleContext [timeDimension]
        [timeSplit (Some \<lparr>reference = ''time'', direction = ascending\<rparr>) None] None)
       = Inr (Ready 10)
   \<and> tableOtherwise ((exampleContext [timeDimension]
        [timeSplit (Some \<lparr>reference = ''time'', direction = ascending\<rparr>) None] None)
          \<lparr>isSelectedVisualization := False\<rparr>)
       = Inr (Ready 8)"
  using tableOtherwise_ready_when_nothing_to_correct
    [of "exampleContext [timeDimension]
        [timeSplit (Some \<lparr>reference = ''time'', direction = ascending\<rparr>) None] None"
        "[timeSplit (Some \<lparr>reference = ''time'', direction = ascending\<rparr>) None]" False]
    tableOtherwise_ready_when_nothing_to_correct
    [of "(exampleContext [timeDimension]
        [timeSplit (Some \<lparr>reference = ''time'', direction = ascending\<rparr>) None] None)
          \<lparr>isSelectedVisualization := False\<rparr>"
        "[timeSplit (Some \<lparr>reference = ''time'', direction = ascending\<rparr>) None]" False]
  by (simp add: fallback_defs example_defs)

theorem tableOtherwise_adjusted_ready_witness:
  "tableOtherwise (exampleContext [stringDimension ''country'' None]
      [stringSplit ''country'' None None] None)
     = Inr (Automatic 6
         \<lparr>adj_series = None,
          adj_splits = Some [stringSplit ''country'' (Some countDescending) (Some 50)]\<rparr> None)
   \<and> colors (exampleContext [stringDimension ''country'' None]
        [stringSplit ''country'' None None] None) = None
   \<and> \<not> sort_empty (getDefaultSortExpression (dataCube (exampleContext
        [stringDimension ''country'' None] [stringSplit ''country'' None None] None)))
   \<and> tableOtherwise (applyAdjustment
         \<lparr>adj_series = None,
          adj_splits = Some [stringSplit ''country'' (Some countDescending) (Some 50)]\<rparr>
         (exampleContext [stringDimension ''country'' None]
            [stringSplit ''country'' None None] None))
     = Inr (Ready 10)"
proof -
  have first: "tableOtherwise (exampleContext [stringDimension ''country'' None]
      [stringSplit ''country'' None None] None)
     = Inr (Automatic 6
         \<lparr>adj_series = None,
          adj_splits = Some [stringSplit ''country'' (Some countDescending) (Some 50)]\<rparr> None)"
    by (simp add: fallback_defs example_defs)
  have none: "colors (exampleContext [stringDimension ''country'' None]
        [stringSplit ''country'' None None] None) = None"
    by (simp add: example_defs)
  have default: "\<not> sort_empty (getDefaultSortExpression (dataCube (exampleContext
        [stringDimension ''country'' None] [stringSplit ''country'' None None] None)))"
    by (simp add: fallback_defs example_defs)
  from tableOtherwise_adjusted_ready [OF first none default] first none default
  show ?thesis by (simp add: example_defs)
qed

theorem evaluateTraced_first_match_wins_witness:
  "evaluateTraced (tableRuleChain 3)
     (exampleContext [stringDimension ''country'' None]
        [stringSplit ''country'' (Some countDescending) (Some 10),
         stringSplit ''country'' (Some countDescending) (Some 10),
         stringSplit ''country'' (Some countDescending) (Some 10)] None)
   = ([Tested 0 False, Tested 1 True, Invoked 1],
      removeExcessiveSplits 3 ''Table''
        (exampleContext [stringDimension ''country'' None]
          [stringSplit ''country'' (Some countDescending) (Some 10),
           stringSplit ''country'' (Some countDescending) (Some 10),
           stringSplit ''country'' (Some countDescending) (Some 10)] None))
   \<and> evaluateTraced (tableRuleChain 3)
     (exampleContext [stringDimension ''country'' None]
        [stringSplit ''country'' (Some countDescending) (Some 10)] None)
   = ([Tested 0 False, Tested 1 False, InvokedFallback],
      tableOtherwise (exampleContext [stringDimension ''country'' None]
        [stringSplit ''country'' (Some countDescending) (Some 10)] None))"
proof -
  let ?three = "exampleContext [stringDimension ''country'' None]
        [stringSplit ''country'' (Some countDescending) (Some 10),
         stringSplit ''country'' (Some countDescending) (Some 10),
         stringSplit ''country'' (Some countDescending) (Some 10)] None"
  let ?one = "exampleContext [stringDimension ''country'' None]
        [stringSplit ''country'' (Some countDescending) (Some 10)] None"
  have a: "1 < length (rules (tableRuleChain 3)) \<and> fst (rules (tableRuleChain 3) ! 1) ?three \<and>
        (\<forall>j<1. \<not> fst (rules (tableRuleChain 3) ! j) ?three)"
    by (simp add: tableRuleChain_rules noSplits_def supportedSplitsCount_def example_defs)
  have b: "\<forall>r\<in>set (rules (tableRuleChain 3)). \<not> fst r ?one"
    by (simp add: tableRuleChain_rules noSplits_def supportedSplitsCount_def example_defs)
  from evaluateTraced_first_match_wins [of "tableRuleChain 3" ?three] a
  have "evaluateTraced (tableRuleChain 3) ?three =
      (map (\<lambda>j. Tested j False) [0..<1] @ [Tested 1 True, Invoked 1],
       snd (rules (tableRuleChain 3) ! 1) ?three)"
    by blast
  moreover from evaluateTraced_first_match_wins [of "tableRuleChain 3" ?one] b
  have "evaluateTraced (tableRuleChain 3) ?one =
      (map (\<lambda>j. Tested j False) [0..<length (rules (tableRuleChain 3))] @ [InvokedFallback],
       fallback (tableRuleChain 3) ?one)"
    by blast
  ultimately show ?thesis
    by (simp add: tableRuleChain_rules upt_rec)
qed

theorem rulesEvaluator_no_splits_manual_witness:
  "splits (exampleContext [stringDimension ''country'' None] [] None) = []
   \<and> rulesEvaluator 3 (exampleContext [stringDimension ''country'' None] [] None)
       = Inr (Manual ''The Table requires at least one split'')
   \<and> fst (evaluateTraced (tableRuleChain 3)
        (exampleContext [stringDimension ''country'' None] [] None))
       = [Tested 0 True, Invoked 0]"
  using rulesEvaluator_no_splits_manual
    [of "exampleContext [stringDimension ''country'' None] [] None" 3]
  by (simp add: example_defs)

theorem rulesEvaluator_truncates_excessive_splits_witness:
  "supportedMax (exampleContext [stringDimension ''country'' None, stringDimension ''city'' None, timeDimension]
        [stringSplit ''country'' None None, stringSplit ''city'' None None, timeSplit None None] None)
     < length (splits (exampleContext [stringDimension ''country'' None, stringDimension ''city'' None, timeDimension]
        [stringSplit ''country'' None None, stringSplit ''city'' None None, timeSplit None None] None))
   \<and> (\<exists>descr. rulesEvaluator 3
       (exampleContext [stringDimension ''country'' None, stringDimension ''city'' None, timeDimension]
        [stringSplit ''country'' None None, stringSplit ''city'' None None, timeSplit None None] None)
     = Inr (Automatic 3
         \<lparr>adj_series = None,
          adj_splits = Some [stringSplit ''country'' None None, stringSplit ''city'' None None]\<rparr>
         descr))"
proof -
  let ?ctx = "exampleContext [stringDimension ''country'' None, stringDimension ''city'' None, timeDimension]
        [stringSplit ''country'' None None, stringSplit ''city'' None None, timeSplit None None] None"
  have h: "supportedMax ?ctx < length (splits ?ctx)" by (simp add: example_defs)
  from rulesEvaluator_truncates_excessive_splits [OF h, of 3] obtain kept descr where
    r: "rulesEvaluator 3 ?ctx = Inr (Automatic 3 \<lparr>adj_series = None, adj_splits = Some kept\<rparr> descr)"
    and l: "length kept = supportedMax ?ctx"
    and o: "\<forall>i<supportedMax ?ctx. kept ! i = splits ?ctx ! i"
    by blast
  from l have l2: "length kept = 2" by (simp add: example_defs)
  from o have "kept ! 0 = stringSplit ''country'' None None" "kept ! 1 = stringSplit ''city'' None None"
    by (simp_all add: exampleContext_def)
  with l2 have "kept = [stringSplit ''country'' None None, stringSplit ''city'' None None]"
    by (auto simp add: list_eq_iff_nth_eq less_Suc_eq numeral_2_eq_2)
  with r h show ?thesis by blast
qed

section \<open>Properties of Resolutions.firstMeasure\<close>

text \<open>
  Claim C10. For a data cube with at least one measure, \<open>firstMeasure\<close> returns exactly
  one suggestion; its adjustment carries the series list made of the one series built from
  the first measure. For a data cube without measures the call fails with a TypeError: the
  first measure is dereferenced without a guard.
\<close>

theorem firstMeasure_first_or_TypeError:
  "(measures dc \<noteq> [] \<longrightarrow>
      firstMeasure dc =
        Inr [\<lparr>description = ''Select measure: '' @ measure_title (hd (measures dc)),
              adjustment = \<lparr>adj_series = Some [fromMeasure (hd (measures dc))],
                            adj_splits = None\<rparr>\<rparr>]) \<and>
   (measures dc = [] \<longrightarrow> firstMeasure dc = Inl TypeError)"
  by (cases "measures dc") (simp_all add: firstMeasure_def)

theorem firstMeasure_first_or_TypeError_witness:
  "firstMeasure \<lparr>dimensions = [],
      measures = [\<lparr>measure_name = ''count'', measure_title = ''Count''\<rparr>,
                  \<lparr>measure_name = ''added'', measure_title = ''Added''\<rparr>],
      defaultSortExpression = None\<rparr>
     = Inr [\<lparr>description = ''Select measure: Count'',
             adjustment = \<lparr>adj_series = Some [\<lparr>series_reference = ''count''\<rparr>], adj_splits = None\<rparr>\<rparr>]
   \<and> firstMeasure \<lparr>dimensions = [], measures = [], defaultSortExpression = None\<rparr> = Inl TypeError"
  using firstMeasure_first_or_TypeError
    [of "\<lparr>dimensions = [],
      measures = [\<lparr>measure_name = ''count'', measure_title = ''Count''\<rparr>,
                  \<lparr>measure_name = ''added'', measure_title = ''Added''\<rparr>],
      defaultSortExpression = None\<rparr>"]
    firstMeasure_first_or_TypeError
    [of "\<lparr>dimensions = [], measures = [], defaultSortExpression = None\<rparr>"]
  by (simp add: fromMeasure_def)

end
